theory Spec2Isabelle
  imports Main
begin

section \<open>The research pipeline of The Research Archive\<close>

text \<open>
  The program is a React component (\<^verbatim>\<open>src/App.tsx\<close>) that drives four stage
  functions (\<^verbatim>\<open>src/services/geminiService.ts\<close>): \<^verbatim>\<open>planTopic\<close>,
  \<^verbatim>\<open>fetchMockSearch\<close>, \<^verbatim>\<open>mapContent\<close> and \<^verbatim>\<open>writeReport\<close>.
  The stage functions are asynchronous and call an external text generation service.
  Here every stage is a function of the service's answers: what a call to
  \<^verbatim>\<open>ai.models.generateContent\<close> settles to is a parameter of the model
  (record \<open>services\<close> below), a rejected promise or a thrown exception is the left
  summand of a sum type, and the component's state is a record that the handlers
  transform.

  Strings are \<^typ>\<open>string\<close>: a list of code units, each below 256.
\<close>

subsection \<open>Strings, falsy values and errors\<close>

definition nl :: string where
  "nl = [CHR 0x0A]"

definition dq :: string where
  "dq = [CHR 0x22]"

text \<open>
  \<^verbatim>\<open>String.prototype.trim\<close> removes white space and line terminators from both
  ends. Among the code units below 256 these are tab, line feed, vertical tab, form
  feed, carriage return, space and the no-break space.
\<close>

definition is_white_space :: "char \<Rightarrow> bool" where
  "is_white_space c =
     (c = CHR 0x09 \<or> c = CHR 0x0A \<or> c = CHR 0x0B \<or> c = CHR 0x0C \<or> c = CHR 0x0D \<or>
      c = CHR 0x20 \<or> c = CHR 0xA0)"

definition trim :: "string \<Rightarrow> string" where
  "trim s = rev (dropWhile is_white_space (rev (dropWhile is_white_space s)))"

text \<open>
  A value of type \<^verbatim>\<open>string | undefined\<close> is a \<^typ>\<open>string option\<close>. It is falsy
  when it is \<^verbatim>\<open>undefined\<close> or the empty string; \<open>a || b\<close> on such a value is
  \<open>or_else\<close>.
\<close>

fun truthy :: "string option \<Rightarrow> bool" where
  "truthy None = False"
| "truthy (Some s) = (s \<noteq> [])"

fun or_else :: "string option \<Rightarrow> string \<Rightarrow> string" where
  "or_else None d = d"
| "or_else (Some s) d = (if s = [] then d else s)"

text \<open>A JavaScript \<^verbatim>\<open>Error\<close> object, with its \<^verbatim>\<open>message\<close>.\<close>

datatype js_error = JsError (message: string)

subsection \<open>The data of \<^verbatim>\<open>types.ts\<close>\<close>

record SearchResult =
  source :: string
  content :: string

datatype AgentStep = Idle | Planning | Searching | Mapping | Writing | Complete | Error

subsection \<open>The generation service\<close>

text \<open>
  What the program cannot decide is collected here. \<open>API_KEY\<close> is
  \<^verbatim>\<open>process.env.API_KEY\<close>. A call of \<^verbatim>\<open>generateContent\<close> settles to
  \<open>Inl e\<close> (the promise rejects with \<open>e\<close>) or to \<open>Inr t\<close> (a response whose
  \<^verbatim>\<open>text\<close> is \<open>t\<close>, possibly \<^verbatim>\<open>undefined\<close>); the answer may depend on the key
  the client was made with and on the prompt, and for the calls of \<^verbatim>\<open>mapContent\<close>
  on the position of the document. \<open>map_settled i\<close> is the time at which the call
  for document \<open>i\<close> settles. Every call settles.
\<close>

record services =
  API_KEY :: "string option"
  plan_response :: "string \<Rightarrow> string \<Rightarrow> js_error + string option"
  map_response :: "nat \<Rightarrow> string \<Rightarrow> string \<Rightarrow> js_error + string option"
  map_settled :: "nat \<Rightarrow> nat"
  write_response :: "string \<Rightarrow> string \<Rightarrow> js_error + string option"

text \<open>
  \<^verbatim>\<open>getClient\<close>: the client is represented by the key it was made with.
\<close>

definition getClient :: "services \<Rightarrow> string option \<Rightarrow> js_error + string" where
  "getClient sv apiKey =
     (let key = (if truthy apiKey then apiKey else API_KEY sv) in
      case key of
        None \<Rightarrow> Inl (JsError ''API Key is missing. Please provide it in the input field.'')
      | Some k \<Rightarrow>
          if k = [] then Inl (JsError ''API Key is missing. Please provide it in the input field.'')
          else Inr k)"

subsection \<open>Stage 1: the planner\<close>

definition plan_prompt :: "string \<Rightarrow> string" where
  "plan_prompt userQuery =
     ''You are a Research Lead. The user wants to know about: '' @ dq @ userQuery @ dq @ ''.'' @ nl @
     ''      '' @ nl @
     ''      Define a specific angle for this research.'' @ nl @
     ''      Return ONLY the refined topic string. Do not add quotes or markdown.'' @ nl @
     ''      '' @ nl @
     ''      Example Input: '' @ dq @ ''Cars'' @ dq @ nl @
     ''      Example Output: The transition from combustion engines to electric vehicles in 2025''"

text \<open>The body of the \<^verbatim>\<open>try\<close> block of \<^verbatim>\<open>planTopic\<close>.\<close>

definition planTopic_try :: "services \<Rightarrow> string \<Rightarrow> string option \<Rightarrow> js_error + string" where
  "planTopic_try sv userQuery apiKey =
     (case getClient sv apiKey of
        Inl e \<Rightarrow> Inl e
      | Inr ai \<Rightarrow>
          (case plan_response sv ai (plan_prompt userQuery) of
             Inl e \<Rightarrow> Inl e
           | Inr text \<Rightarrow> Inr (or_else (map_option trim text) userQuery)))"

text \<open>The \<^verbatim>\<open>catch\<close> block replaces whatever was thrown.\<close>

definition planTopic :: "services \<Rightarrow> string \<Rightarrow> string option \<Rightarrow> js_error + string" where
  "planTopic sv userQuery apiKey =
     (case planTopic_try sv userQuery apiKey of
        Inl e \<Rightarrow> Inl (JsError ''Could not plan the research topic. Check your API Key.'')
      | Inr topic \<Rightarrow> Inr topic)"

subsection \<open>Stage 2: the mock search\<close>

text \<open>The delay of 1500 ms has no effect on the value and is left out.\<close>

definition fetchMockSearch :: "string \<Rightarrow> SearchResult list" where
  "fetchMockSearch refinedTopic =
     [\<lparr>source = ''Academic Paper'',
       content = ''Recent studies show '' @ refinedTopic @
                 '' is accelerating due to GPU costs dropping by 40%.''\<rparr>,
      \<lparr>source = ''Tech Blog'',
       content = ''Developers are complaining that '' @ refinedTopic @
                 '' is hard to debug, leading to a 20% slowdown in production.''\<rparr>,
      \<lparr>source = ''Market Report'',
       content = ''Investors have poured $5B into '' @ refinedTopic @
                 '' related startups in Q4 2024.''\<rparr>]"

subsection \<open>Stage 3: the mapper\<close>

text \<open>
  \<^verbatim>\<open>Promise.all\<close> over promises that all settle. The promises settle in the order
  of their settling times (the earlier issued first among equal times). The result
  array has one slot per promise, \<^verbatim>\<open>undefined\<close> (\<open>None\<close>) until the promise of
  that index is fulfilled; the first rejection rejects the whole. \<open>settle\<close> is only
  called with the indices of \<open>ps\<close>, each once, so \<open>ps ! i\<close> is always in range.
\<close>

fun settle :: "(js_error + 'a) list \<Rightarrow> nat list \<Rightarrow> 'a option list \<Rightarrow> js_error + 'a option list" where
  "settle ps [] vals = Inr vals"
| "settle ps (i # order) vals =
     (case ps ! i of
        Inl e \<Rightarrow> Inl e
      | Inr v \<Rightarrow> settle ps order (vals[i := Some v]))"

definition Promise_all :: "(nat \<Rightarrow> nat) \<Rightarrow> (js_error + 'a) list \<Rightarrow> js_error + 'a option list" where
  "Promise_all settled ps =
     settle ps (sort_key settled [0..<length ps]) (replicate (length ps) None)"

text \<open>
  \<^verbatim>\<open>Array.prototype.join\<close>: an \<^verbatim>\<open>undefined\<close> element contributes the empty
  string.
\<close>

fun join :: "string \<Rightarrow> string option list \<Rightarrow> string" where
  "join sep [] = []"
| "join sep [x] = (case x of None \<Rightarrow> [] | Some s \<Rightarrow> s)"
| "join sep (x # y # ys) = (case x of None \<Rightarrow> [] | Some s \<Rightarrow> s) @ sep @ join sep (y # ys)"

definition map_prompt :: "SearchResult \<Rightarrow> string" where
  "map_prompt doc = ''Extract key facts from: '' @ source doc @ '': '' @ content doc"

text \<open>The promise made for the document at position \<open>i\<close>.\<close>

definition map_call :: "services \<Rightarrow> string \<Rightarrow> nat \<times> SearchResult \<Rightarrow> js_error + string" where
  "map_call sv ai p =
     (case map_response sv (fst p) ai (map_prompt (snd p)) of
        Inl e \<Rightarrow> Inl e
      | Inr text \<Rightarrow> Inr (or_else text []))"

definition mapContent_try :: "services \<Rightarrow> SearchResult list \<Rightarrow> string option \<Rightarrow> js_error + string" where
  "mapContent_try sv documents apiKey =
     (case getClient sv apiKey of
        Inl e \<Rightarrow> Inl e
      | Inr ai \<Rightarrow>
          (let promises = map (map_call sv ai) (enumerate 0 documents) in
           case Promise_all (map_settled sv) promises of
             Inl e \<Rightarrow> Inl e
           | Inr results \<Rightarrow> Inr (join nl results)))"

definition mapContent :: "services \<Rightarrow> SearchResult list \<Rightarrow> string option \<Rightarrow> js_error + string" where
  "mapContent sv documents apiKey =
     (case mapContent_try sv documents apiKey of
        Inl e \<Rightarrow> Inl (JsError ''Could not extract facts from sources.'')
      | Inr notes \<Rightarrow> Inr notes)"

subsection \<open>\<^verbatim>\<open>JSON.parse\<close>\<close>

text \<open>
  \<^verbatim>\<open>writeReport\<close> hands the response text to \<^verbatim>\<open>JSON.parse\<close> and returns
  what it yields. The parser is modelled in two passes over the text, each a state
  machine that reads one symbol at a time: a lexer and a parser with an explicit stack
  of the open containers. A string value is a list of UTF-16 code units (an escape
  \<^verbatim>\<open>\uXXXX\<close> can denote any of them). A number keeps its literal: its value as a
  double is not modelled. An object is the list of its properties in the order of their
  first occurrence; a repeated key overwrites the value.
\<close>

datatype json =
    JNull
  | JBool bool
  | JNumber string
  | JString "nat list"
  | JArray "json list"
  | JObject "(nat list \<times> json) list"

definition units :: "string \<Rightarrow> nat list" where
  "units s = map of_char s"

datatype token =
    LBrace | RBrace | LBracket | RBracket | Colon | Comma
  | TString "nat list" | TNumber string | TTrue | TFalse | TNull

text \<open>\<open>in_range lo hi c\<close>: the code of \<open>c\<close> lies between \<open>lo\<close> and \<open>hi\<close>.\<close>

definition in_range :: "nat \<Rightarrow> nat \<Rightarrow> char \<Rightarrow> bool" where
  "in_range lo hi c = (lo \<le> of_char c \<and> (of_char c :: nat) \<le> hi)"

definition is_digit :: "char \<Rightarrow> bool" where
  "is_digit c = in_range 48 57 c"

definition is_json_space :: "char \<Rightarrow> bool" where
  "is_json_space c = (c = CHR 0x20 \<or> c = CHR 0x09 \<or> c = CHR 0x0A \<or> c = CHR 0x0D)"

text \<open>
  The characters of literals and numbers. In a valid text a literal or a number is
  followed by white space, a comma, a closing bracket or the end, so reading a maximal
  run of these characters and checking it afterwards accepts the same texts.
\<close>

definition is_word_char :: "char \<Rightarrow> bool" where
  "is_word_char c =
     (is_digit c \<or> in_range 97 122 c \<or> in_range 65 90 c \<or>
      c = CHR ''+'' \<or> c = CHR ''-'' \<or> c = CHR ''.'')"

definition valid_exponent :: "string \<Rightarrow> bool" where
  "valid_exponent r =
     (case r of
        [] \<Rightarrow> True
      | c # r' \<Rightarrow>
          (c = CHR ''e'' \<or> c = CHR ''E'') \<and>
          (let ds = (case r' of
                       [] \<Rightarrow> []
                     | s # t \<Rightarrow> if s = CHR ''+'' \<or> s = CHR ''-'' then t else r')
           in ds \<noteq> [] \<and> list_all is_digit ds))"

definition valid_fraction :: "string \<Rightarrow> bool" where
  "valid_fraction r =
     (case r of
        [] \<Rightarrow> True
      | c # r' \<Rightarrow>
          if c = CHR ''.'' then takeWhile is_digit r' \<noteq> [] \<and> valid_exponent (dropWhile is_digit r')
          else valid_exponent r)"

definition valid_number :: "string \<Rightarrow> bool" where
  "valid_number w =
     (let u = (case w of [] \<Rightarrow> [] | c # r \<Rightarrow> if c = CHR ''-'' then r else w);
          ip = takeWhile is_digit u
      in (case ip of
            [] \<Rightarrow> False
          | d # ds \<Rightarrow> (if d = CHR ''0'' then ds = [] else True) \<and> valid_fraction (dropWhile is_digit u)))"

definition word_token :: "string \<Rightarrow> token option" where
  "word_token w =
     (if w = ''true'' then Some TTrue
      else if w = ''false'' then Some TFalse
      else if w = ''null'' then Some TNull
      else if valid_number w then Some (TNumber w)
      else None)"

definition escape_unit :: "char \<Rightarrow> nat option" where
  "escape_unit c =
     (if c = CHR 0x22 then Some 0x22
      else if c = CHR 0x5C then Some 0x5C
      else if c = CHR ''/'' then Some 0x2F
      else if c = CHR ''b'' then Some 0x08
      else if c = CHR ''f'' then Some 0x0C
      else if c = CHR ''n'' then Some 0x0A
      else if c = CHR ''r'' then Some 0x0D
      else if c = CHR ''t'' then Some 0x09
      else None)"

definition hex_digit :: "char \<Rightarrow> nat option" where
  "hex_digit c =
     (if is_digit c then Some (of_char c - 48)
      else if in_range 97 102 c then Some (of_char c - 87)
      else if in_range 65 70 c then Some (of_char c - 55)
      else None)"

datatype lex_mode =
    Between
  | InWord string
  | InString "nat list"
  | InEscape "nat list"
  | InHex "nat list" "nat list"

definition lex_between :: "char \<Rightarrow> (token list \<times> lex_mode) option" where
  "lex_between c =
     (if c = CHR ''{'' then Some ([LBrace], Between)
      else if c = CHR ''}'' then Some ([RBrace], Between)
      else if c = CHR ''['' then Some ([LBracket], Between)
      else if c = CHR '']'' then Some ([RBracket], Between)
      else if c = CHR '':'' then Some ([Colon], Between)
      else if c = CHR '','' then Some ([Comma], Between)
      else if c = CHR 0x22 then Some ([], InString [])
      else if is_json_space c then Some ([], Between)
      else if is_word_char c then Some ([], InWord [c])
      else None)"

fun lex_step :: "lex_mode \<Rightarrow> char \<Rightarrow> (token list \<times> lex_mode) option" where
  "lex_step Between c = lex_between c"
| "lex_step (InWord w) c =
     (if is_word_char c then Some ([], InWord (w @ [c]))
      else (case word_token w of
              None \<Rightarrow> None
            | Some t \<Rightarrow>
                (case lex_between c of
                   None \<Rightarrow> None
                 | Some (ts, m) \<Rightarrow> Some (t # ts, m))))"
| "lex_step (InString s) c =
     (if c = CHR 0x22 then Some ([TString s], Between)
      else if c = CHR 0x5C then Some ([], InEscape s)
      else if (of_char c :: nat) < 0x20 then None
      else Some ([], InString (s @ [of_char c])))"
| "lex_step (InEscape s) c =
     (case escape_unit c of
        Some u \<Rightarrow> Some ([], InString (s @ [u]))
      | None \<Rightarrow> if c = CHR ''u'' then Some ([], InHex s []) else None)"
| "lex_step (InHex s ds) c =
     (case hex_digit c of
        None \<Rightarrow> None
      | Some d \<Rightarrow>
          if length ds = 3 then Some ([], InString (s @ [foldl (\<lambda>a x. 16 * a + x) 0 (ds @ [d])]))
          else Some ([], InHex s (ds @ [d])))"

fun lex :: "lex_mode \<Rightarrow> string \<Rightarrow> token list option" where
  "lex m [] =
     (case m of
        Between \<Rightarrow> Some []
      | InWord w \<Rightarrow> map_option (\<lambda>t. [t]) (word_token w)
      | _ \<Rightarrow> None)"
| "lex m (c # cs) =
     (case lex_step m c of
        None \<Rightarrow> None
      | Some (ts, m') \<Rightarrow> map_option ((@) ts) (lex m' cs))"

text \<open>
  The parser. A frame is an open array with the elements read so far, or an open
  object with its properties so far and the key whose value is being read.
\<close>

datatype frame =
    InArray "json list"
  | InObject "(nat list \<times> json) list" "nat list"

datatype expect =
    Value
  | ValueOrClose
  | KeyOrClose
  | Key
  | AfterKey
  | AfterValue
  | Done json

fun set_property :: "nat list \<Rightarrow> json \<Rightarrow> (nat list \<times> json) list \<Rightarrow> (nat list \<times> json) list" where
  "set_property k v [] = [(k, v)]"
| "set_property k v (p # ps) = (if fst p = k then (k, v) # ps else p # set_property k v ps)"

text \<open>A value is complete: it goes into the innermost open container.\<close>

fun deliver :: "json \<Rightarrow> frame list \<Rightarrow> frame list \<times> expect" where
  "deliver v [] = ([], Done v)"
| "deliver v (InArray xs # st) = (InArray (xs @ [v]) # st, AfterValue)"
| "deliver v (InObject ms k # st) = (InObject (set_property k v ms) k # st, AfterValue)"

fun scalar :: "token \<Rightarrow> json option" where
  "scalar (TString s) = Some (JString s)"
| "scalar (TNumber w) = Some (JNumber w)"
| "scalar TTrue = Some (JBool True)"
| "scalar TFalse = Some (JBool False)"
| "scalar TNull = Some JNull"
| "scalar _ = None"

fun parse_value :: "frame list \<Rightarrow> token \<Rightarrow> (frame list \<times> expect) option" where
  "parse_value st LBracket = Some (InArray [] # st, ValueOrClose)"
| "parse_value st LBrace = Some (InObject [] [] # st, KeyOrClose)"
| "parse_value st t = map_option (\<lambda>v. deliver v st) (scalar t)"

fun parse_step :: "frame list \<times> expect \<Rightarrow> token \<Rightarrow> (frame list \<times> expect) option" where
  "parse_step (st, Value) t = parse_value st t"
| "parse_step (InArray xs # st, ValueOrClose) RBracket = Some (deliver (JArray xs) st)"
| "parse_step (st, ValueOrClose) t = parse_value st t"
| "parse_step (InObject ms k # st, KeyOrClose) RBrace = Some (deliver (JObject ms) st)"
| "parse_step (InObject ms k # st, KeyOrClose) (TString s) = Some (InObject ms s # st, AfterKey)"
| "parse_step (InObject ms k # st, Key) (TString s) = Some (InObject ms s # st, AfterKey)"
| "parse_step (st, AfterKey) Colon = Some (st, Value)"
| "parse_step (InArray xs # st, AfterValue) Comma = Some (InArray xs # st, Value)"
| "parse_step (InObject ms k # st, AfterValue) Comma = Some (InObject ms k # st, Key)"
| "parse_step (InArray xs # st, AfterValue) RBracket = Some (deliver (JArray xs) st)"
| "parse_step (InObject ms k # st, AfterValue) RBrace = Some (deliver (JObject ms) st)"
| "parse_step _ _ = None"

fun parse_tokens :: "frame list \<times> expect \<Rightarrow> token list \<Rightarrow> (frame list \<times> expect) option" where
  "parse_tokens p [] = Some p"
| "parse_tokens p (t # ts) =
     (case parse_step p t of
        None \<Rightarrow> None
      | Some p' \<Rightarrow> parse_tokens p' ts)"

text \<open>\<open>None\<close> is the \<^verbatim>\<open>SyntaxError\<close> that \<^verbatim>\<open>JSON.parse\<close> throws.\<close>

definition JSON_parse :: "string \<Rightarrow> json option" where
  "JSON_parse text =
     (case lex Between text of
        None \<Rightarrow> None
      | Some ts \<Rightarrow>
          (case parse_tokens ([], Value) ts of
             Some ([], Done v) \<Rightarrow> Some v
           | _ \<Rightarrow> None))"

subsection \<open>Stage 4: the writer\<close>

definition write_prompt :: "string \<Rightarrow> string" where
  "write_prompt rawNotes =
     ''You are a Technical Writer.'' @ nl @
     ''      Synthesize the following raw notes into a structured report.'' @ nl @
     ''      '' @ nl @
     ''      RAW NOTES:'' @ nl @
     ''      '' @ rawNotes @ nl @
     ''      ''"

text \<open>
  The request also carries the response schema, a constant; its \<^verbatim>\<open>required\<close> list
  is below. The schema goes to the service only: the program never reads it again.
\<close>

definition required :: "string list" where
  "required = [''title'', ''summary'', ''key_points'', ''verdict'']"

text \<open>
  The message of the \<^verbatim>\<open>SyntaxError\<close> of \<^verbatim>\<open>JSON.parse\<close> depends on the engine;
  the \<^verbatim>\<open>catch\<close> block discards it.
\<close>

definition SyntaxError :: js_error where
  "SyntaxError = JsError ''SyntaxError''"

text \<open>
  The result is the parsed value, cast to \<^verbatim>\<open>ResearchReport\<close>; a cast does nothing
  at run time.
\<close>

definition writeReport_try :: "services \<Rightarrow> string \<Rightarrow> string option \<Rightarrow> js_error + json" where
  "writeReport_try sv rawNotes apiKey =
     (case getClient sv apiKey of
        Inl e \<Rightarrow> Inl e
      | Inr ai \<Rightarrow>
          (case write_response sv ai (write_prompt rawNotes) of
             Inl e \<Rightarrow> Inl e
           | Inr text \<Rightarrow>
               (case text of
                  None \<Rightarrow> Inl (JsError ''No response generated'')
                | Some t \<Rightarrow>
                    if t = [] then Inl (JsError ''No response generated'')
                    else (case JSON_parse t of
                            None \<Rightarrow> Inl SyntaxError
                          | Some r \<Rightarrow> Inr r))))"

definition writeReport :: "services \<Rightarrow> string \<Rightarrow> string option \<Rightarrow> js_error + json" where
  "writeReport sv rawNotes apiKey =
     (case writeReport_try sv rawNotes apiKey of
        Inl e \<Rightarrow> Inl (JsError ''Could not write the final report.'')
      | Inr r \<Rightarrow> Inr r)"

subsection \<open>The component \<^verbatim>\<open>App\<close>\<close>

text \<open>
  The six state variables of the component. \<open>report\<close> is \<open>JNull\<close> when the
  variable holds \<^verbatim>\<open>null\<close>.
\<close>

record App_state =
  apiKey :: string
  query :: string
  step :: AgentStep
  refinedTopic :: string
  report :: json
  error :: "string option"

definition initial :: App_state where
  "initial = \<lparr>apiKey = [], query = [], step = Idle, refinedTopic = [], report = JNull, error = None\<rparr>"

text \<open>
  What a call of \<^verbatim>\<open>handleResearch\<close> does, in order: \<open>Update s\<close> is a group of
  state setters called without an \<^verbatim>\<open>await\<close> between them, leaving the component in
  state \<open>s\<close>; \<open>Invoke f\<close> is the call of a stage function. The trace is that of
  one call on its own: what another handler sets between two of its steps is not part
  of it.
\<close>

datatype stage = Call_planTopic | Call_fetchMockSearch | Call_mapContent | Call_writeReport

datatype event = Update App_state | Invoke stage

text \<open>The \<^verbatim>\<open>catch\<close> block of \<^verbatim>\<open>handleResearch\<close>.\<close>

definition on_error :: "App_state \<Rightarrow> js_error \<Rightarrow> App_state" where
  "on_error s err =
     s\<lparr>error := Some (or_else (Some (message err))
                       ''An unexpected error occurred during the research process.''),
       step := Error\<rparr>"

definition handleResearch :: "services \<Rightarrow> App_state \<Rightarrow> event list" where
  "handleResearch sv s =
     (if trim (query s) = [] then []
      else
        (let s1 = s\<lparr>step := Planning, error := None, report := JNull, refinedTopic := []\<rparr> in
         Update s1 # Invoke Call_planTopic #
         (case planTopic sv (query s) (Some (apiKey s)) of
            Inl err \<Rightarrow> [Update (on_error s1 err)]
          | Inr plannedTopic \<Rightarrow>
              (let s2 = s1\<lparr>refinedTopic := plannedTopic, step := Searching\<rparr>;
                   docs = fetchMockSearch plannedTopic;
                   s3 = s2\<lparr>step := Mapping\<rparr>
               in
               Update s2 # Invoke Call_fetchMockSearch # Update s3 # Invoke Call_mapContent #
               (case mapContent sv docs (Some (apiKey s)) of
                  Inl err \<Rightarrow> [Update (on_error s3 err)]
                | Inr notes \<Rightarrow>
                    (let s4 = s3\<lparr>step := Writing\<rparr> in
                     Update s4 # Invoke Call_writeReport #
                     (case writeReport sv notes (Some (apiKey s)) of
                        Inl err \<Rightarrow> [Update (on_error s4 err)]
                      | Inr finalReport \<Rightarrow>
                          [Update (s4\<lparr>report := finalReport, step := Complete\<rparr>)])))))))"

text \<open>The states a run goes through, the stage calls it makes, and where it ends.\<close>

fun states :: "event list \<Rightarrow> App_state list" where
  "states [] = []"
| "states (Update s # evs) = s # states evs"
| "states (Invoke f # evs) = states evs"

fun calls :: "event list \<Rightarrow> stage list" where
  "calls [] = []"
| "calls (Update s # evs) = calls evs"
| "calls (Invoke f # evs) = f # calls evs"

definition final_state :: "App_state \<Rightarrow> event list \<Rightarrow> App_state" where
  "final_state s evs = last (s # states evs)"

text \<open>
  The two controls that call \<^verbatim>\<open>handleResearch\<close>: the button \<^verbatim>\<open>Initiate\<close>
  (\<^verbatim>\<open>onClick\<close>) and the query field (\<^verbatim>\<open>onKeyDown\<close>). Both are rendered with the
  same \<^verbatim>\<open>disabled\<close> attribute. React does not call the \<^verbatim>\<open>onClick\<close> of a disabled
  button, so a click reaches \<^verbatim>\<open>handleResearch\<close> only while the button is enabled.
  The \<^verbatim>\<open>onKeyDown\<close> handler of the query field checks the key and nothing else: a
  key event that reaches it with the key \<^verbatim>\<open>Enter\<close> calls \<^verbatim>\<open>handleResearch\<close> in
  whatever state the component is.
\<close>

definition disabled :: "App_state \<Rightarrow> bool" where
  "disabled s = (step s \<noteq> Idle \<and> step s \<noteq> Complete \<and> step s \<noteq> Error)"

datatype control = Initiate_click | Query_keydown string

fun dispatch :: "services \<Rightarrow> App_state \<Rightarrow> control \<Rightarrow> event list" where
  "dispatch sv s Initiate_click = (if disabled s then [] else handleResearch sv s)"
| "dispatch sv s (Query_keydown key) = (if key = ''Enter'' then handleResearch sv s else [])"

text \<open>
  The two reset handlers: the button \<^verbatim>\<open>Reset System\<close> of the error panel and the
  button \<^verbatim>\<open>Conduct New Research\<close> below a finished report.
\<close>

definition reset_system :: "App_state \<Rightarrow> App_state" where
  "reset_system s = s\<lparr>step := Idle\<rparr>"

definition conduct_new_research :: "App_state \<Rightarrow> App_state" where
  "conduct_new_research s = s\<lparr>step := Idle, query := [], report := JNull, refinedTopic := []\<rparr>"

text \<open>
  A service with scripted answers, for concrete runs: the environment key, the answer
  to the planner's call, the answer to the mapper's call for each document, the settling
  times of those calls, and the answer to the writer's call.
\<close>

definition scripted ::
  "string option \<Rightarrow> (js_error + string option) \<Rightarrow> (nat \<Rightarrow> js_error + string option) \<Rightarrow>
   (nat \<Rightarrow> nat) \<Rightarrow> (js_error + string option) \<Rightarrow> services" where
  "scripted env_key plan extract delay write =
     \<lparr>API_KEY = env_key,
      plan_response = (\<lambda>ai prompt. plan),
      map_response = (\<lambda>i ai prompt. extract i),
      map_settled = delay,
      write_response = (\<lambda>ai prompt. write)\<rparr>"

subsection \<open>The notes blob as the specification words it\<close>

text \<open>
  The specification gives the notes blob of the texts \<open>T0, \<dots>, T(N-1)\<close> as
  \<open>T0 + "\n" + T1 + \<dots> + T(N-1)\<close>, and as the empty string for no text at all.
  This definition follows those words; \<open>mapContent\<close> is compared with it below.
\<close>

definition NotesBlob_spec :: "string list \<Rightarrow> string" where
  "NotesBlob_spec ts =
     (case ts of
        [] \<Rightarrow> []
      | t # rest \<Rightarrow> foldl (\<lambda>acc u. acc @ nl @ u) t rest)"

text \<open>
  A response lacks a required field when it is not an object or has no property of
  that name.
\<close>

fun has_field :: "json \<Rightarrow> string \<Rightarrow> bool" where
  "has_field (JObject ms) name = (map_of ms (units name) \<noteq> None)"
| "has_field _ name = False"

subsection \<open>Concrete runs\<close>

text \<open>
  The pieces of the concrete runs used below: a state with a key and the query
  \<^verbatim>\<open>Cars\<close>, the planner's answer, the extractor's answers (the second response has
  no text), settling times that reverse the order of issue, and two writer responses,
  one complete and one without \<^verbatim>\<open>verdict\<close>.
\<close>

definition cars :: App_state where
  "cars = initial\<lparr>apiKey := ''secret'', query := ''Cars''\<rparr>"

definition plan_ok :: "js_error + string option" where
  "plan_ok = Inr (Some '' EV transition in 2025 '')"

definition facts_ok :: "nat \<Rightarrow> js_error + string option" where
  "facts_ok i = (if i = 0 then Inr (Some ''GPU costs fell 40%'')
                 else if i = 1 then Inr None
                 else Inr (Some ''$5B invested''))"

definition facts_one_bad :: "nat \<Rightarrow> js_error + string option" where
  "facts_one_bad i = (if i = 1 then Inl (JsError ''Failed to fetch'') else facts_ok i)"

definition reversed :: "nat \<Rightarrow> nat" where
  "reversed i = 3 - i"

definition report_text :: string where
  \<open>report_text =
     ''{"title":"The EV Shift","summary":"S","key_points":["a","b","c"],"verdict":"Accelerating"}''\<close>

definition report_value :: json where
  "report_value =
     JObject [(units ''title'', JString (units ''The EV Shift'')),
              (units ''summary'', JString (units ''S'')),
              (units ''key_points'',
               JArray [JString (units ''a''), JString (units ''b''), JString (units ''c'')]),
              (units ''verdict'', JString (units ''Accelerating''))]"

definition no_verdict_text :: string where
  \<open>no_verdict_text = ''{"title":"The EV Shift","summary":"S","key_points":["a","b"]}''\<close>

text \<open>A response cut off in the middle: not valid JSON.\<close>

definition truncated_text :: string where
  \<open>truncated_text = ''{"title":"The EV Sh''\<close>

definition no_verdict_value :: json where
  "no_verdict_value =
     JObject [(units ''title'', JString (units ''The EV Shift'')),
              (units ''summary'', JString (units ''S'')),
              (units ''key_points'', JArray [JString (units ''a''), JString (units ''b'')])]"

section \<open>Properties\<close>

subsection \<open>Strings and the parser on the concrete texts\<close>

lemma dropWhile_all_iff:
  "(\<forall>x\<in>set (dropWhile P xs). P x) \<longleftrightarrow> (\<forall>x\<in>set xs. P x)"
proof
  assume rest: "\<forall>x\<in>set (dropWhile P xs). P x"
  have "set xs = set (takeWhile P xs) \<union> set (dropWhile P xs)"
    by (metis set_append takeWhile_dropWhile_id)
  then show "\<forall>x\<in>set xs. P x"
    using rest by (auto dest: set_takeWhileD)
next
  assume "\<forall>x\<in>set xs. P x"
  then show "\<forall>x\<in>set (dropWhile P xs). P x"
    by (auto dest: set_dropWhileD)
qed

lemma trim_empty_iff: "trim q = [] \<longleftrightarrow> (\<forall>c\<in>set q. is_white_space c)"
proof -
  have "trim q = [] \<longleftrightarrow> (\<forall>c\<in>set (rev (dropWhile is_white_space q)). is_white_space c)"
    by (simp add: trim_def dropWhile_eq_Nil_conv)
  also have "\<dots> \<longleftrightarrow> (\<forall>c\<in>set q. is_white_space c)"
    by (simp add: dropWhile_all_iff)
  finally show ?thesis .
qed

lemmas json_eval = JSON_parse_def lex_between_def is_json_space_def is_word_char_def
  is_digit_def in_range_def units_def

lemma parse_report_text: "JSON_parse report_text = Some report_value"
  by (simp add: report_text_def report_value_def json_eval)

lemma parse_no_verdict_text: "JSON_parse no_verdict_text = Some no_verdict_value"
  by (simp add: no_verdict_text_def no_verdict_value_def json_eval)

lemma trim_Cars: "trim ''Cars'' = ''Cars''"
  by (simp add: trim_def is_white_space_def)

lemma trim_plan_ok: "trim '' EV transition in 2025 '' = ''EV transition in 2025''"
  by (simp add: trim_def is_white_space_def)

lemma getClient_cars: "getClient (scripted None p x d w) (Some (apiKey cars)) = Inr ''secret''"
  by (simp add: getClient_def cars_def initial_def scripted_def)

lemma getClient_no_key: "getClient (scripted None p x d w) (Some []) =
    Inl (JsError ''API Key is missing. Please provide it in the input field.'')"
  by (simp add: getClient_def scripted_def)

subsection \<open>Every stage fails with its own single message\<close>

lemma planTopic_error:
  "planTopic sv q k = Inl e \<Longrightarrow> e = JsError ''Could not plan the research topic. Check your API Key.''"
  by (auto simp: planTopic_def split: sum.splits)

lemma mapContent_error:
  "mapContent sv docs k = Inl e \<Longrightarrow> e = JsError ''Could not extract facts from sources.''"
  by (auto simp: mapContent_def split: sum.splits)

lemma writeReport_error:
  "writeReport sv notes k = Inl e \<Longrightarrow> e = JsError ''Could not write the final report.''"
  by (auto simp: writeReport_def split: sum.splits)

lemma on_error_plan:
  "on_error s (JsError ''Could not plan the research topic. Check your API Key.'') =
   s\<lparr>error := Some ''Could not plan the research topic. Check your API Key.'', step := Error\<rparr>"
  by (simp add: on_error_def)

lemma on_error_map:
  "on_error s (JsError ''Could not extract facts from sources.'') =
   s\<lparr>error := Some ''Could not extract facts from sources.'', step := Error\<rparr>"
  by (simp add: on_error_def)

lemma on_error_write:
  "on_error s (JsError ''Could not write the final report.'') =
   s\<lparr>error := Some ''Could not write the final report.'', step := Error\<rparr>"
  by (simp add: on_error_def)

subsection \<open>The planner\<close>

lemma planTopic_fulfilled:
  assumes "getClient sv k = Inr ai"
    and "plan_response sv ai (plan_prompt q) = Inr (Some t)"
  shows "planTopic sv q k = Inr (if trim t = [] then q else trim t)"
  using assms by (simp add: planTopic_def planTopic_try_def)

lemma planTopic_plan_ok:
  "planTopic (scripted None plan_ok x d w) (query cars) (Some (apiKey cars)) =
     Inr ''EV transition in 2025''"
  using planTopic_fulfilled [OF getClient_cars, of plan_ok x d w "query cars" "'' EV transition in 2025 ''"]
  by (simp add: scripted_def plan_ok_def trim_plan_ok)

subsection \<open>The mapper: \<^verbatim>\<open>Promise.all\<close> and \<^verbatim>\<open>join\<close>\<close>

lemma foldl_sep_append:
  "foldl (\<lambda>acc u. acc @ sep @ u) (a @ t) r = a @ foldl (\<lambda>acc u. acc @ sep @ u) t r"
  by (induction r arbitrary: t) simp_all

lemma join_Some_Cons:
  "join sep (map Some (t # r)) = foldl (\<lambda>acc u. acc @ sep @ u) t r"
proof (induction r arbitrary: t)
  case Nil
  show ?case by simp
next
  case (Cons u r)
  have "join sep (map Some (t # u # r)) = t @ sep @ join sep (map Some (u # r))"
    by simp
  also have "\<dots> = t @ sep @ foldl (\<lambda>acc u. acc @ sep @ u) u r"
    using Cons.IH by simp
  also have "\<dots> = foldl (\<lambda>acc u. acc @ sep @ u) ((t @ sep) @ u) r"
    using foldl_sep_append [of sep "t @ sep" u r] by simp
  finally show ?case by simp
qed

lemma join_NotesBlob_spec: "join nl (map Some ts) = NotesBlob_spec ts"
proof (cases ts)
  case Nil
  then show ?thesis by (simp add: NotesBlob_spec_def)
next
  case (Cons t rest)
  then show ?thesis
    using join_Some_Cons [of nl t rest] by (simp add: NotesBlob_spec_def del: join.simps)
qed

lemma getClient_map_settled: "getClient (sv\<lparr>map_settled := d\<rparr>) k = getClient sv k"
  by (simp add: getClient_def)

lemma settle_fulfilled:
  assumes "\<forall>i\<in>set order. ps ! i = Inr (v i)"
  shows "settle ps order vals = Inr (fold (\<lambda>i xs. xs[i := Some (v i)]) order vals)"
  using assms by (induction order arbitrary: vals) simp_all

lemma fold_update_length:
  "length (fold (\<lambda>i xs. xs[i := f i]) order vals) = length vals"
  by (induction order arbitrary: vals) simp_all

lemma fold_update_nth:
  assumes "j < length vals" and "j \<in> set order"
  shows "fold (\<lambda>i xs. xs[i := f i]) order vals ! j = f j"
  using assms
proof (induction order arbitrary: vals rule: rev_induct)
  case Nil
  then show ?case by simp
next
  case (snoc a order)
  show ?case
  proof (cases "j = a")
    case True
    then show ?thesis using snoc.prems by (simp add: fold_update_length)
  next
    case False
    then have "j \<in> set order" using snoc.prems by simp
    then show ?thesis using snoc.IH [of vals] snoc.prems False by simp
  qed
qed

lemma Promise_all_fulfilled:
  assumes "\<forall>i<length ps. ps ! i = Inr (v i)"
  shows "Promise_all d ps = Inr (map (\<lambda>i. Some (v i)) [0..<length ps])"
proof -
  let ?order = "sort_key d [0..<length ps]"
  let ?vals = "fold (\<lambda>i xs. xs[i := Some (v i)]) ?order (replicate (length ps) None)"
  have order: "set ?order = {0..<length ps}" by simp
  have "settle ps ?order (replicate (length ps) None) = Inr ?vals"
    by (rule settle_fulfilled) (use assms order in auto)
  moreover have "?vals = map (\<lambda>i. Some (v i)) [0..<length ps]"
  proof (rule nth_equalityI)
    show "length ?vals = length (map (\<lambda>i. Some (v i)) [0..<length ps])"
      by (simp add: fold_update_length)
  next
    fix j assume "j < length ?vals"
    then have j: "j < length ps" by (simp add: fold_update_length)
    then have "?vals ! j = Some (v j)"
      using fold_update_nth [of j "replicate (length ps) None" ?order "\<lambda>i. Some (v i)"] order
      by simp
    then show "?vals ! j = map (\<lambda>i. Some (v i)) [0..<length ps] ! j"
      using j by simp
  qed
  ultimately show ?thesis by (simp add: Promise_all_def)
qed

lemma settle_rejected:
  assumes "i \<in> set order" and "ps ! i = Inl e"
  shows "\<exists>e'. settle ps order vals = Inl e'"
  using assms
proof (induction order arbitrary: vals)
  case Nil
  then show ?case by simp
next
  case (Cons a order)
  show ?case
  proof (cases "ps ! a")
    case (Inl e0)
    then show ?thesis by simp
  next
    case (Inr v)
    then have "i \<in> set order" using Cons.prems by auto
    then show ?thesis using Cons.IH Cons.prems(2) Inr by simp
  qed
qed

lemma Promise_all_rejected:
  assumes "i < length ps" and "ps ! i = Inl e"
  shows "\<exists>e'. Promise_all d ps = Inl e'"
  unfolding Promise_all_def
  by (rule settle_rejected [of i _ _ e]) (use assms in simp_all)

lemma mapContent_fulfilled:
  assumes "getClient sv k = Inr ai"
    and "\<forall>i<length docs. map_response sv i ai (map_prompt (docs ! i)) = Inr (T i)"
  shows "mapContent (sv\<lparr>map_settled := d\<rparr>) docs k =
           Inr (NotesBlob_spec (map (\<lambda>i. or_else (T i) []) [0..<length docs]))"
proof -
  let ?sv = "sv\<lparr>map_settled := d\<rparr>"
  let ?ps = "map (map_call ?sv ai) (enumerate 0 docs)"
  have client: "getClient ?sv k = Inr ai"
    using assms(1) by (simp add: getClient_map_settled)
  have "\<forall>i<length ?ps. ?ps ! i = Inr (or_else (T i) [])"
    using assms(2) by (simp add: nth_enumerate_eq map_call_def)
  then have "Promise_all d ?ps = Inr (map (\<lambda>i. Some (or_else (T i) [])) [0..<length ?ps])"
    by (rule Promise_all_fulfilled)
  then have "Promise_all (map_settled ?sv) ?ps =
      Inr (map Some (map (\<lambda>i. or_else (T i) []) [0..<length docs]))"
    by (simp add: comp_def)
  then have "mapContent_try ?sv docs k =
      Inr (join nl (map Some (map (\<lambda>i. or_else (T i) []) [0..<length docs])))"
    unfolding mapContent_try_def Let_def client by (simp only: sum.case)
  then show ?thesis
    by (simp only: mapContent_def join_NotesBlob_spec sum.case)
qed

lemma mapContent_rejected:
  assumes "getClient sv k = Inr ai" and "i < length docs"
    and "map_response sv i ai (map_prompt (docs ! i)) = Inl e"
  shows "mapContent sv docs k = Inl (JsError ''Could not extract facts from sources.'')"
proof -
  let ?ps = "map (map_call sv ai) (enumerate 0 docs)"
  have "?ps ! i = Inl e"
    using assms(2,3) by (simp add: nth_enumerate_eq map_call_def)
  moreover have "i < length ?ps" using assms(2) by simp
  ultimately obtain e' where "Promise_all (map_settled sv) ?ps = Inl e'"
    using Promise_all_rejected by blast
  then show ?thesis
    using assms(1) by (simp add: mapContent_def mapContent_try_def)
qed

subsection \<open>The shape of a run\<close>

lemma run_blank: "trim (query s) = [] \<Longrightarrow> handleResearch sv s = []"
  by (simp add: handleResearch_def)

lemma run_plan_failed:
  assumes "trim (query s) \<noteq> []" and "planTopic sv (query s) (Some (apiKey s)) = Inl e"
  shows "handleResearch sv s =
     [Update (s\<lparr>step := Planning, error := None, report := JNull, refinedTopic := []\<rparr>),
      Invoke Call_planTopic,
      Update (s\<lparr>step := Error,
                error := Some ''Could not plan the research topic. Check your API Key.'',
                report := JNull, refinedTopic := []\<rparr>)]"
  using assms planTopic_error [OF assms(2)]
  by (simp add: handleResearch_def on_error_def)

lemma run_map_failed:
  assumes "trim (query s) \<noteq> []" and "planTopic sv (query s) (Some (apiKey s)) = Inr topic"
    and "mapContent sv (fetchMockSearch topic) (Some (apiKey s)) = Inl e"
  shows "handleResearch sv s =
     [Update (s\<lparr>step := Planning, error := None, report := JNull, refinedTopic := []\<rparr>),
      Invoke Call_planTopic,
      Update (s\<lparr>step := Searching, error := None, report := JNull, refinedTopic := topic\<rparr>),
      Invoke Call_fetchMockSearch,
      Update (s\<lparr>step := Mapping, error := None, report := JNull, refinedTopic := topic\<rparr>),
      Invoke Call_mapContent,
      Update (s\<lparr>step := Error, error := Some ''Could not extract facts from sources.'',
                report := JNull, refinedTopic := topic\<rparr>)]"
  using assms mapContent_error [OF assms(3)]
  by (simp add: handleResearch_def on_error_def)

lemma run_write_failed:
  assumes "trim (query s) \<noteq> []" and "planTopic sv (query s) (Some (apiKey s)) = Inr topic"
    and "mapContent sv (fetchMockSearch topic) (Some (apiKey s)) = Inr notes"
    and "writeReport sv notes (Some (apiKey s)) = Inl e"
  shows "handleResearch sv s =
     [Update (s\<lparr>step := Planning, error := None, report := JNull, refinedTopic := []\<rparr>),
      Invoke Call_planTopic,
      Update (s\<lparr>step := Searching, error := None, report := JNull, refinedTopic := topic\<rparr>),
      Invoke Call_fetchMockSearch,
      Update (s\<lparr>step := Mapping, error := None, report := JNull, refinedTopic := topic\<rparr>),
      Invoke Call_mapContent,
      Update (s\<lparr>step := Writing, error := None, report := JNull, refinedTopic := topic\<rparr>),
      Invoke Call_writeReport,
      Update (s\<lparr>step := Error, error := Some ''Could not write the final report.'',
                report := JNull, refinedTopic := topic\<rparr>)]"
  using assms writeReport_error [OF assms(4)]
  by (simp add: handleResearch_def on_error_def)

lemma run_complete:
  assumes "trim (query s) \<noteq> []" and "planTopic sv (query s) (Some (apiKey s)) = Inr topic"
    and "mapContent sv (fetchMockSearch topic) (Some (apiKey s)) = Inr notes"
    and "writeReport sv notes (Some (apiKey s)) = Inr r"
  shows "handleResearch sv s =
     [Update (s\<lparr>step := Planning, error := None, report := JNull, refinedTopic := []\<rparr>),
      Invoke Call_planTopic,
      Update (s\<lparr>step := Searching, error := None, report := JNull, refinedTopic := topic\<rparr>),
      Invoke Call_fetchMockSearch,
      Update (s\<lparr>step := Mapping, error := None, report := JNull, refinedTopic := topic\<rparr>),
      Invoke Call_mapContent,
      Update (s\<lparr>step := Writing, error := None, report := JNull, refinedTopic := topic\<rparr>),
      Invoke Call_writeReport,
      Update (s\<lparr>step := Complete, error := None, report := r, refinedTopic := topic\<rparr>)]"
  using assms by (simp add: handleResearch_def)

text \<open>The five ways a call of \<open>handleResearch\<close> can go.\<close>

lemma run_cases:
  obtains
    (blank) "trim (query s) = []" "handleResearch sv s = []"
  | (plan_failed) e where "trim (query s) \<noteq> []"
      "planTopic sv (query s) (Some (apiKey s)) = Inl e"
  | (map_failed) topic e where "trim (query s) \<noteq> []"
      "planTopic sv (query s) (Some (apiKey s)) = Inr topic"
      "mapContent sv (fetchMockSearch topic) (Some (apiKey s)) = Inl e"
  | (write_failed) topic blob e where "trim (query s) \<noteq> []"
      "planTopic sv (query s) (Some (apiKey s)) = Inr topic"
      "mapContent sv (fetchMockSearch topic) (Some (apiKey s)) = Inr blob"
      "writeReport sv blob (Some (apiKey s)) = Inl e"
  | (complete) topic blob r where "trim (query s) \<noteq> []"
      "planTopic sv (query s) (Some (apiKey s)) = Inr topic"
      "mapContent sv (fetchMockSearch topic) (Some (apiKey s)) = Inr blob"
      "writeReport sv blob (Some (apiKey s)) = Inr r"
proof (cases "trim (query s) = []")
  case True
  then show ?thesis using blank run_blank by blast
next
  case nonblank: False
  show ?thesis
  proof (cases "planTopic sv (query s) (Some (apiKey s))")
    case (Inl e)
    then show ?thesis using nonblank plan_failed by blast
  next
    case plan: (Inr topic)
    show ?thesis
    proof (cases "mapContent sv (fetchMockSearch topic) (Some (apiKey s))")
      case (Inl e)
      then show ?thesis using nonblank plan map_failed by blast
    next
      case mapped: (Inr blob)
      show ?thesis
      proof (cases "writeReport sv blob (Some (apiKey s))")
        case (Inl e)
        then show ?thesis using nonblank plan mapped write_failed by blast
      next
        case (Inr r)
        then show ?thesis using nonblank plan mapped complete by blast
      qed
    qed
  qed
qed

subsection \<open>The stages on the concrete answers\<close>

lemma scripted_sel:
  "API_KEY (scripted key p x d w) = key"
  "plan_response (scripted key p x d w) ai prompt = p"
  "map_response (scripted key p x d w) i ai prompt = x i"
  "map_settled (scripted key p x d w) = d"
  "write_response (scripted key p x d w) ai prompt = w"
  by (simp_all add: scripted_def)

lemma planTopic_rejected:
  "planTopic (scripted None (Inl e) x d w) q k =
     Inl (JsError ''Could not plan the research topic. Check your API Key.'')"
  by (simp add: planTopic_def planTopic_try_def scripted_def split: sum.splits)

lemma planTopic_no_key:
  "planTopic (scripted None p x d w) q (Some []) =
     Inl (JsError ''Could not plan the research topic. Check your API Key.'')"
  by (simp add: planTopic_def planTopic_try_def getClient_no_key)

lemma mapContent_facts_ok:
  "mapContent (scripted None p facts_ok d w) (fetchMockSearch topic) (Some (apiKey cars)) =
     Inr (''GPU costs fell 40%'' @ nl @ nl @ ''$5B invested'')"
proof -
  let ?sv = "scripted None p facts_ok (\<lambda>i. i) w"
  let ?T = "\<lambda>i. if i = 0 then Some ''GPU costs fell 40%''
                 else if i = 1 then None else Some ''$5B invested''"
  have "\<forall>i<length (fetchMockSearch topic).
          map_response ?sv i ''secret'' (map_prompt (fetchMockSearch topic ! i)) = Inr (?T i)"
    by (simp add: scripted_def facts_ok_def)
  from mapContent_fulfilled [OF getClient_cars this, of d]
  show ?thesis
    by (simp add: scripted_def fetchMockSearch_def NotesBlob_spec_def upt_rec)
qed

lemma mapContent_facts_one_bad:
  "mapContent (scripted None p facts_one_bad d w) (fetchMockSearch topic) (Some (apiKey cars)) =
     Inl (JsError ''Could not extract facts from sources.'')"
proof (rule mapContent_rejected [OF getClient_cars, of 1])
  show "1 < length (fetchMockSearch topic)"
    by (simp add: fetchMockSearch_def)
  show "map_response (scripted None p facts_one_bad d w) 1 ''secret''
          (map_prompt (fetchMockSearch topic ! 1)) = Inl (JsError ''Failed to fetch'')"
    by (simp add: scripted_def facts_one_bad_def)
qed

lemma writeReport_parsed:
  assumes "JSON_parse t = Some r" and "t \<noteq> []"
  shows "writeReport (scripted None p x d (Inr (Some t))) blob (Some (apiKey cars)) = Inr r"
  using assms by (simp add: writeReport_def writeReport_try_def getClient_cars scripted_sel)

lemma writeReport_rejected:
  "writeReport (scripted None p x d (Inl e)) blob k =
     Inl (JsError ''Could not write the final report.'')"
  by (simp add: writeReport_def writeReport_try_def scripted_def split: sum.splits)

lemma writeReport_unparsable:
  assumes "JSON_parse t = None"
  shows "writeReport (scripted None p x d (Inr (Some t))) blob k =
     Inl (JsError ''Could not write the final report.'')"
  using assms by (simp add: writeReport_def writeReport_try_def scripted_def split: sum.splits)

lemma query_cars: "trim (query cars) \<noteq> []"
  by (simp add: cars_def initial_def trim_Cars)

lemma report_text_nonempty: "report_text \<noteq> []" "no_verdict_text \<noteq> []"
  by (simp_all add: report_text_def no_verdict_text_def)

lemma run_all_ok:
  "handleResearch (scripted None plan_ok facts_ok d (Inr (Some report_text))) cars =
     [Update (cars\<lparr>step := Planning, error := None, report := JNull, refinedTopic := []\<rparr>),
      Invoke Call_planTopic,
      Update (cars\<lparr>step := Searching, error := None, report := JNull,
                   refinedTopic := ''EV transition in 2025''\<rparr>),
      Invoke Call_fetchMockSearch,
      Update (cars\<lparr>step := Mapping, error := None, report := JNull,
                   refinedTopic := ''EV transition in 2025''\<rparr>),
      Invoke Call_mapContent,
      Update (cars\<lparr>step := Writing, error := None, report := JNull,
                   refinedTopic := ''EV transition in 2025''\<rparr>),
      Invoke Call_writeReport,
      Update (cars\<lparr>step := Complete, error := None, report := report_value,
                   refinedTopic := ''EV transition in 2025''\<rparr>)]"
  by (rule run_complete [OF query_cars planTopic_plan_ok mapContent_facts_ok
        writeReport_parsed [OF parse_report_text report_text_nonempty(1)]])

lemma run_no_verdict:
  "handleResearch (scripted None plan_ok facts_ok d (Inr (Some no_verdict_text))) cars =
     [Update (cars\<lparr>step := Planning, error := None, report := JNull, refinedTopic := []\<rparr>),
      Invoke Call_planTopic,
      Update (cars\<lparr>step := Searching, error := None, report := JNull,
                   refinedTopic := ''EV transition in 2025''\<rparr>),
      Invoke Call_fetchMockSearch,
      Update (cars\<lparr>step := Mapping, error := None, report := JNull,
                   refinedTopic := ''EV transition in 2025''\<rparr>),
      Invoke Call_mapContent,
      Update (cars\<lparr>step := Writing, error := None, report := JNull,
                   refinedTopic := ''EV transition in 2025''\<rparr>),
      Invoke Call_writeReport,
      Update (cars\<lparr>step := Complete, error := None, report := no_verdict_value,
                   refinedTopic := ''EV transition in 2025''\<rparr>)]"
  by (rule run_complete [OF query_cars planTopic_plan_ok mapContent_facts_ok
        writeReport_parsed [OF parse_no_verdict_text report_text_nonempty(2)]])

lemma run_one_bad:
  "handleResearch (scripted None plan_ok facts_one_bad d w) cars =
     [Update (cars\<lparr>step := Planning, error := None, report := JNull, refinedTopic := []\<rparr>),
      Invoke Call_planTopic,
      Update (cars\<lparr>step := Searching, error := None, report := JNull,
                   refinedTopic := ''EV transition in 2025''\<rparr>),
      Invoke Call_fetchMockSearch,
      Update (cars\<lparr>step := Mapping, error := None, report := JNull,
                   refinedTopic := ''EV transition in 2025''\<rparr>),
      Invoke Call_mapContent,
      Update (cars\<lparr>step := Error, error := Some ''Could not extract facts from sources.'',
                   report := JNull, refinedTopic := ''EV transition in 2025''\<rparr>)]"
  by (rule run_map_failed [OF query_cars planTopic_plan_ok mapContent_facts_one_bad])

lemma run_write_error:
  assumes "writeReport (scripted None plan_ok facts_ok d w)
             (''GPU costs fell 40%'' @ nl @ nl @ ''$5B invested'') (Some (apiKey cars)) = Inl e"
  shows "error (final_state cars (handleResearch (scripted None plan_ok facts_ok d w) cars)) =
           Some ''Could not write the final report.''"
  using run_write_failed [OF query_cars planTopic_plan_ok mapContent_facts_ok assms]
  by (simp add: final_state_def)

lemma parse_truncated_text: "JSON_parse truncated_text = None"
  by (simp add: truncated_text_def json_eval)

lemma truncated_text_nonempty: "truncated_text \<noteq> []"
  by (simp add: truncated_text_def)

lemma run_complete_no_error:
  assumes "step (final_state s (handleResearch sv s)) = Complete" and "trim (query s) \<noteq> []"
  shows "error (final_state s (handleResearch sv s)) = None"
proof (cases rule: run_cases [of s sv])
  case blank
  then show ?thesis using assms(2) by simp
next
  case (plan_failed e)
  then show ?thesis using assms(1) by (simp add: run_plan_failed final_state_def)
next
  case (map_failed topic e)
  then show ?thesis using assms(1) by (simp add: run_map_failed final_state_def)
next
  case (write_failed topic blob e)
  then show ?thesis using assms(1) by (simp add: run_write_failed final_state_def)
next
  case (complete topic blob r)
  then show ?thesis by (simp add: run_complete final_state_def)
qed

lemma conduct_new_research_clears:
  "step (conduct_new_research s) = Idle \<and> refinedTopic (conduct_new_research s) = [] \<and>
   report (conduct_new_research s) = JNull \<and> error (conduct_new_research s) = error s"
  by (simp add: conduct_new_research_def)

section \<open>The claims\<close>

text \<open>
  C1, as the specification states it: a response that lacks a required field makes
  \<open>writeReport\<close> fail, and no report is published. The response below is valid JSON
  without \<^verbatim>\<open>verdict\<close>; \<open>writeReport\<close> returns it, and the run stores it in the
  report variable and ends in \<open>Complete\<close>.
\<close>

theorem writeReport_missing_verdict_counterexample:
  "write_response (scripted None plan_ok facts_ok reversed (Inr (Some no_verdict_text))) ''secret''
     (write_prompt (''GPU costs fell 40%'' @ nl @ nl @ ''$5B invested'')) = Inr (Some no_verdict_text) \<and>
   JSON_parse no_verdict_text = Some no_verdict_value \<and>
   ''verdict'' \<in> set required \<and> \<not> has_field no_verdict_value ''verdict'' \<and>
   writeReport (scripted None plan_ok facts_ok reversed (Inr (Some no_verdict_text)))
     (''GPU costs fell 40%'' @ nl @ nl @ ''$5B invested'') (Some (apiKey cars)) = Inr no_verdict_value \<and>
   final_state cars (handleResearch (scripted None plan_ok facts_ok reversed (Inr (Some no_verdict_text))) cars) =
     cars\<lparr>step := Complete, error := None, report := no_verdict_value,
          refinedTopic := ''EV transition in 2025''\<rparr>"
proof -
  have "''verdict'' \<in> set required \<and> \<not> has_field no_verdict_value ''verdict''"
    by (simp add: no_verdict_value_def units_def required_def)
  moreover have "final_state cars
      (handleResearch (scripted None plan_ok facts_ok reversed (Inr (Some no_verdict_text))) cars) =
      cars\<lparr>step := Complete, error := None, report := no_verdict_value,
          refinedTopic := ''EV transition in 2025''\<rparr>"
    by (simp add: run_no_verdict final_state_def)
  ultimately show ?thesis
    using writeReport_parsed [OF parse_no_verdict_text report_text_nonempty(2)]
    by (simp add: scripted_sel parse_no_verdict_text)
qed

text \<open>
  C1, amended: \<open>writeReport\<close> returns a value exactly when a key is available, the
  call succeeds, the response text is present and not empty, and the text is valid
  JSON; the value is then whatever the text parses to, with no check of its fields.
  In every other case it fails with its single message. In a run that reaches the
  writer, a failure ends the run in \<open>Error\<close> with that message and the report
  variable still \<^verbatim>\<open>null\<close>; a returned value is stored in the report variable and
  the run ends in \<open>Complete\<close>. The report variable holds a value only in a
  \<open>Complete\<close> state, and then the value the writer returned. What the view does
  with the stored value is not part of the statement.
\<close>

theorem writeReport_returns_what_parses:
  "(writeReport sv blob k = Inr r \<longleftrightarrow>
      (\<exists>ai t. getClient sv k = Inr ai \<and>
              write_response sv ai (write_prompt blob) = Inr (Some t) \<and>
              t \<noteq> [] \<and> JSON_parse t = Some r)) \<and>
   (writeReport sv blob k = Inl e \<longrightarrow> e = JsError ''Could not write the final report.'') \<and>
   (trim (query s) \<noteq> [] \<and> planTopic sv (query s) (Some (apiKey s)) = Inr topic \<and>
    mapContent sv (fetchMockSearch topic) (Some (apiKey s)) = Inr blob \<and> k = Some (apiKey s) \<longrightarrow>
      Call_writeReport \<in> set (calls (handleResearch sv s)) \<and>
      final_state s (handleResearch sv s) =
        (case writeReport sv blob k of
           Inl e' \<Rightarrow> s\<lparr>step := Error, error := Some ''Could not write the final report.'',
                        report := JNull, refinedTopic := topic\<rparr>
         | Inr r' \<Rightarrow> s\<lparr>step := Complete, error := None, report := r', refinedTopic := topic\<rparr>)) \<and>
   (\<forall>s'\<in>set (states (handleResearch sv s)). step s' \<noteq> Complete \<longrightarrow> report s' = JNull) \<and>
   (\<forall>s'\<in>set (states (handleResearch sv s)). step s' = Complete \<longrightarrow>
      (\<exists>topic' blob'. planTopic sv (query s) (Some (apiKey s)) = Inr topic' \<and>
         mapContent sv (fetchMockSearch topic') (Some (apiKey s)) = Inr blob' \<and>
         writeReport sv blob' (Some (apiKey s)) = Inr (report s')))"
proof (intro conjI)
  show "writeReport sv blob k = Inr r \<longleftrightarrow>
      (\<exists>ai t. getClient sv k = Inr ai \<and>
              write_response sv ai (write_prompt blob) = Inr (Some t) \<and>
              t \<noteq> [] \<and> JSON_parse t = Some r)"
    by (auto simp: writeReport_def writeReport_try_def split: sum.splits option.splits if_splits)
next
  show "writeReport sv blob k = Inl e \<longrightarrow> e = JsError ''Could not write the final report.''"
    using writeReport_error by blast
next
  show "trim (query s) \<noteq> [] \<and> planTopic sv (query s) (Some (apiKey s)) = Inr topic \<and>
    mapContent sv (fetchMockSearch topic) (Some (apiKey s)) = Inr blob \<and> k = Some (apiKey s) \<longrightarrow>
      Call_writeReport \<in> set (calls (handleResearch sv s)) \<and>
      final_state s (handleResearch sv s) =
        (case writeReport sv blob k of
           Inl e' \<Rightarrow> s\<lparr>step := Error, error := Some ''Could not write the final report.'',
                        report := JNull, refinedTopic := topic\<rparr>
         | Inr r' \<Rightarrow> s\<lparr>step := Complete, error := None, report := r', refinedTopic := topic\<rparr>)"
  proof (intro impI, elim conjE)
    assume nonblank: "trim (query s) \<noteq> []"
      and plan: "planTopic sv (query s) (Some (apiKey s)) = Inr topic"
      and mapped: "mapContent sv (fetchMockSearch topic) (Some (apiKey s)) = Inr blob"
      and k: "k = Some (apiKey s)"
    show "Call_writeReport \<in> set (calls (handleResearch sv s)) \<and>
      final_state s (handleResearch sv s) =
        (case writeReport sv blob k of
           Inl e' \<Rightarrow> s\<lparr>step := Error, error := Some ''Could not write the final report.'',
                        report := JNull, refinedTopic := topic\<rparr>
         | Inr r' \<Rightarrow> s\<lparr>step := Complete, error := None, report := r', refinedTopic := topic\<rparr>)"
    proof (cases "writeReport sv blob (Some (apiKey s))")
      case (Inl e')
      then show ?thesis
        using k by (simp add: run_write_failed [OF nonblank plan mapped Inl] final_state_def)
    next
      case (Inr r')
      then show ?thesis
        using k by (simp add: run_complete [OF nonblank plan mapped Inr] final_state_def)
    qed
  qed
next
  show "\<forall>s'\<in>set (states (handleResearch sv s)). step s' \<noteq> Complete \<longrightarrow> report s' = JNull"
  proof (cases rule: run_cases [of s sv])
    case blank
    then show ?thesis by simp
  next
    case (plan_failed e)
    then show ?thesis by (simp add: run_plan_failed)
  next
    case (map_failed topic e)
    then show ?thesis by (simp add: run_map_failed)
  next
    case (write_failed topic blob e)
    then show ?thesis by (simp add: run_write_failed)
  next
    case (complete topic blob r)
    then show ?thesis by (simp add: run_complete)
  qed
next
  show "\<forall>s'\<in>set (states (handleResearch sv s)). step s' = Complete \<longrightarrow>
      (\<exists>topic' blob'. planTopic sv (query s) (Some (apiKey s)) = Inr topic' \<and>
         mapContent sv (fetchMockSearch topic') (Some (apiKey s)) = Inr blob' \<and>
         writeReport sv blob' (Some (apiKey s)) = Inr (report s'))"
  proof (cases rule: run_cases [of s sv])
    case blank
    then show ?thesis by simp
  next
    case (plan_failed e)
    then show ?thesis by (simp add: run_plan_failed)
  next
    case (map_failed topic e)
    then show ?thesis by (simp add: run_map_failed)
  next
    case (write_failed topic blob e)
    then show ?thesis by (simp add: run_write_failed)
  next
    case (complete topic blob r)
    then show ?thesis by (simp add: run_complete)
  qed
qed

theorem writeReport_returns_what_parses_witness:
  "writeReport (scripted None plan_ok facts_ok reversed (Inr (Some report_text)))
     (''GPU costs fell 40%'' @ nl @ nl @ ''$5B invested'') (Some (apiKey cars)) = Inr report_value \<and>
   list_all (has_field report_value) required \<and>
   Call_writeReport \<in> set (calls
     (handleResearch (scripted None plan_ok facts_ok reversed (Inr (Some report_text))) cars)) \<and>
   final_state cars (handleResearch (scripted None plan_ok facts_ok reversed (Inr (Some report_text))) cars) =
     cars\<lparr>step := Complete, error := None, report := report_value,
          refinedTopic := ''EV transition in 2025''\<rparr> \<and>
   writeReport (scripted None plan_ok facts_ok reversed (Inr (Some truncated_text)))
     (''GPU costs fell 40%'' @ nl @ nl @ ''$5B invested'') (Some (apiKey cars)) =
     Inl (JsError ''Could not write the final report.'') \<and>
   Call_writeReport \<in> set (calls
     (handleResearch (scripted None plan_ok facts_ok reversed (Inr (Some truncated_text))) cars)) \<and>
   final_state cars (handleResearch (scripted None plan_ok facts_ok reversed (Inr (Some truncated_text))) cars) =
     cars\<lparr>step := Error, error := Some ''Could not write the final report.'', report := JNull,
          refinedTopic := ''EV transition in 2025''\<rparr>"
proof -
  let ?ok = "scripted None plan_ok facts_ok reversed (Inr (Some report_text))"
  let ?cut = "scripted None plan_ok facts_ok reversed (Inr (Some truncated_text))"
  let ?blob = "''GPU costs fell 40%'' @ nl @ nl @ ''$5B invested''"
  have "\<exists>ai t. getClient ?ok (Some (apiKey cars)) = Inr ai \<and>
      write_response ?ok ai (write_prompt ?blob) = Inr (Some t) \<and>
      t \<noteq> [] \<and> JSON_parse t = Some report_value"
    using getClient_cars parse_report_text report_text_nonempty(1) by (simp add: scripted_sel)
  then have returned: "writeReport ?ok ?blob (Some (apiKey cars)) = Inr report_value"
    using writeReport_returns_what_parses [of ?ok ?blob "Some (apiKey cars)" report_value]
    by blast
  have failed: "writeReport ?cut ?blob (Some (apiKey cars)) =
      Inl (JsError ''Could not write the final report.'')"
    by (rule writeReport_unparsable [OF parse_truncated_text])
  note reaches_writer =
    writeReport_returns_what_parses [THEN conjunct2, THEN conjunct2, THEN conjunct1, THEN mp]
  have hyp_ok: "trim (query cars) \<noteq> [] \<and>
      planTopic ?ok (query cars) (Some (apiKey cars)) = Inr ''EV transition in 2025'' \<and>
      mapContent ?ok (fetchMockSearch ''EV transition in 2025'') (Some (apiKey cars)) = Inr ?blob \<and>
      Some (apiKey cars) = Some (apiKey cars)"
    by (intro conjI query_cars planTopic_plan_ok mapContent_facts_ok refl)
  have run_ok: "Call_writeReport \<in> set (calls (handleResearch ?ok cars)) \<and>
      final_state cars (handleResearch ?ok cars) =
        cars\<lparr>step := Complete, error := None, report := report_value,
             refinedTopic := ''EV transition in 2025''\<rparr>"
    using reaches_writer [OF hyp_ok] by (simp only: returned sum.case)
  have hyp_cut: "trim (query cars) \<noteq> [] \<and>
      planTopic ?cut (query cars) (Some (apiKey cars)) = Inr ''EV transition in 2025'' \<and>
      mapContent ?cut (fetchMockSearch ''EV transition in 2025'') (Some (apiKey cars)) = Inr ?blob \<and>
      Some (apiKey cars) = Some (apiKey cars)"
    by (intro conjI query_cars planTopic_plan_ok mapContent_facts_ok refl)
  have run_cut: "Call_writeReport \<in> set (calls (handleResearch ?cut cars)) \<and>
      final_state cars (handleResearch ?cut cars) =
        cars\<lparr>step := Error, error := Some ''Could not write the final report.'', report := JNull,
             refinedTopic := ''EV transition in 2025''\<rparr>"
    using reaches_writer [OF hyp_cut] by (simp only: failed sum.case)
  have "list_all (has_field report_value) required"
    by (simp add: report_value_def units_def required_def)
  then show ?thesis
    using returned failed run_ok run_cut by blast
qed




text \<open>
  C3, as the specification states it: the message shown to the user tells a missing key
  from a failed call from a response that cannot be parsed. The stage functions do throw
  different errors (\<open>getClient\<close> its own message, the failed call its reason, the
  parser a syntax error), but each \<^verbatim>\<open>catch\<close> block replaces what was thrown by
  the one message of its stage. A run without a key and a run whose planner call is
  rejected show the same message; so do a run whose writer call is rejected and a run
  whose writer response is not valid JSON.
\<close>

theorem error_message_hides_the_cause_counterexample:
  "planTopic_try (scripted None plan_ok facts_ok reversed (Inr (Some report_text)))
     (query cars) (Some []) =
     Inl (JsError ''API Key is missing. Please provide it in the input field.'') \<and>
   planTopic_try (scripted None (Inl (JsError ''Failed to fetch'')) facts_ok reversed (Inr (Some report_text)))
     (query cars) (Some (apiKey cars)) = Inl (JsError ''Failed to fetch'') \<and>
   error (final_state (cars\<lparr>apiKey := []\<rparr>)
     (handleResearch (scripted None plan_ok facts_ok reversed (Inr (Some report_text)))
        (cars\<lparr>apiKey := []\<rparr>))) =
     Some ''Could not plan the research topic. Check your API Key.'' \<and>
   error (final_state cars
     (handleResearch (scripted None (Inl (JsError ''Failed to fetch'')) facts_ok reversed
        (Inr (Some report_text))) cars)) =
     Some ''Could not plan the research topic. Check your API Key.'' \<and>
   writeReport_try (scripted None plan_ok facts_ok reversed (Inl (JsError ''Failed to fetch'')))
     (''GPU costs fell 40%'' @ nl @ nl @ ''$5B invested'') (Some (apiKey cars)) =
     Inl (JsError ''Failed to fetch'') \<and>
   writeReport_try (scripted None plan_ok facts_ok reversed (Inr (Some truncated_text)))
     (''GPU costs fell 40%'' @ nl @ nl @ ''$5B invested'') (Some (apiKey cars)) = Inl SyntaxError \<and>
   error (final_state cars
     (handleResearch (scripted None plan_ok facts_ok reversed (Inl (JsError ''Failed to fetch''))) cars)) =
     Some ''Could not write the final report.'' \<and>
   error (final_state cars
     (handleResearch (scripted None plan_ok facts_ok reversed (Inr (Some truncated_text))) cars)) =
     Some ''Could not write the final report.''"
proof -
  let ?ok = "scripted None plan_ok facts_ok reversed (Inr (Some report_text))"
  let ?down = "scripted None (Inl (JsError ''Failed to fetch'')) facts_ok reversed (Inr (Some report_text))"
  let ?wdown = "scripted None plan_ok facts_ok reversed (Inl (JsError ''Failed to fetch''))"
  let ?cut = "scripted None plan_ok facts_ok reversed (Inr (Some truncated_text))"
  have no_key: "planTopic_try ?ok (query cars) (Some []) =
      Inl (JsError ''API Key is missing. Please provide it in the input field.'')"
    by (simp add: planTopic_try_def getClient_no_key)
  have rejected: "planTopic_try ?down (query cars) (Some (apiKey cars)) = Inl (JsError ''Failed to fetch'')"
    by (simp add: planTopic_try_def getClient_cars scripted_sel)
  have blank_key: "trim (query (cars\<lparr>apiKey := []\<rparr>)) \<noteq> []"
    using query_cars by simp
  have "planTopic ?ok (query (cars\<lparr>apiKey := []\<rparr>)) (Some (apiKey (cars\<lparr>apiKey := []\<rparr>))) =
      Inl (JsError ''Could not plan the research topic. Check your API Key.'')"
    by (simp add: planTopic_no_key)
  from run_plan_failed [OF blank_key this]
  have run_no_key: "error (final_state (cars\<lparr>apiKey := []\<rparr>) (handleResearch ?ok (cars\<lparr>apiKey := []\<rparr>))) =
      Some ''Could not plan the research topic. Check your API Key.''"
    by (simp add: final_state_def)
  have run_rejected: "error (final_state cars (handleResearch ?down cars)) =
      Some ''Could not plan the research topic. Check your API Key.''"
    using run_plan_failed [OF query_cars planTopic_rejected, of "JsError ''Failed to fetch''"
        facts_ok reversed "Inr (Some report_text)"]
    by (simp add: final_state_def)
  have write_rejected: "writeReport_try ?wdown (''GPU costs fell 40%'' @ nl @ nl @ ''$5B invested'')
      (Some (apiKey cars)) = Inl (JsError ''Failed to fetch'')"
    by (simp add: writeReport_try_def getClient_cars scripted_sel)
  have write_cut: "writeReport_try ?cut (''GPU costs fell 40%'' @ nl @ nl @ ''$5B invested'')
      (Some (apiKey cars)) = Inl SyntaxError"
    by (simp add: writeReport_try_def getClient_cars scripted_sel parse_truncated_text truncated_text_nonempty)
  have run_write_rejected: "error (final_state cars (handleResearch ?wdown cars)) =
      Some ''Could not write the final report.''"
    by (rule run_write_error [OF writeReport_rejected])
  have run_write_cut: "error (final_state cars (handleResearch ?cut cars)) =
      Some ''Could not write the final report.''"
    by (rule run_write_error [OF writeReport_unparsable [OF parse_truncated_text]])
  show ?thesis
    using no_key rejected run_no_key run_rejected write_rejected write_cut
      run_write_rejected run_write_cut
    by blast
qed

text \<open>
  C3, amended: the message shown to the user names the stage that failed and nothing
  else. Each stage function fails with one message only, whatever the cause, the three
  messages differ from each other, and the message a run ends with is that of the first
  stage that failed.
\<close>

theorem error_message_names_the_stage:
  "(planTopic sv q k = Inl e \<longrightarrow>
      message e = ''Could not plan the research topic. Check your API Key.'') \<and>
   (mapContent sv docs k = Inl e \<longrightarrow> message e = ''Could not extract facts from sources.'') \<and>
   (writeReport sv blob k = Inl e \<longrightarrow> message e = ''Could not write the final report.'') \<and>
   (trim (query s) \<noteq> [] \<longrightarrow>
      error (final_state s (handleResearch sv s)) =
        (case planTopic sv (query s) (Some (apiKey s)) of
           Inl e1 \<Rightarrow> Some ''Could not plan the research topic. Check your API Key.''
         | Inr topic \<Rightarrow>
             (case mapContent sv (fetchMockSearch topic) (Some (apiKey s)) of
                Inl e2 \<Rightarrow> Some ''Could not extract facts from sources.''
              | Inr extracted \<Rightarrow>
                  (case writeReport sv extracted (Some (apiKey s)) of
                     Inl e3 \<Rightarrow> Some ''Could not write the final report.''
                   | Inr r \<Rightarrow> None))))"
proof (intro conjI impI)
  assume "planTopic sv q k = Inl e"
  then show "message e = ''Could not plan the research topic. Check your API Key.''"
    using planTopic_error by fastforce
next
  assume "mapContent sv docs k = Inl e"
  then show "message e = ''Could not extract facts from sources.''"
    using mapContent_error by fastforce
next
  assume "writeReport sv blob k = Inl e"
  then show "message e = ''Could not write the final report.''"
    using writeReport_error by fastforce
next
  assume nonblank: "trim (query s) \<noteq> []"
  show "error (final_state s (handleResearch sv s)) =
        (case planTopic sv (query s) (Some (apiKey s)) of
           Inl e1 \<Rightarrow> Some ''Could not plan the research topic. Check your API Key.''
         | Inr topic \<Rightarrow>
             (case mapContent sv (fetchMockSearch topic) (Some (apiKey s)) of
                Inl e2 \<Rightarrow> Some ''Could not extract facts from sources.''
              | Inr extracted \<Rightarrow>
                  (case writeReport sv extracted (Some (apiKey s)) of
                     Inl e3 \<Rightarrow> Some ''Could not write the final report.''
                   | Inr r \<Rightarrow> None)))"
  proof (cases rule: run_cases [of s sv])
    case blank
    then show ?thesis using nonblank by simp
  next
    case (plan_failed e)
    then show ?thesis by (simp add: run_plan_failed final_state_def)
  next
    case (map_failed topic e)
    then show ?thesis by (simp add: run_map_failed final_state_def)
  next
    case (write_failed topic blob e)
    then show ?thesis by (simp add: run_write_failed final_state_def)
  next
    case (complete topic blob r)
    then show ?thesis by (simp add: run_complete final_state_def)
  qed
qed

theorem error_message_names_the_stage_witness:
  "planTopic (scripted None (Inl (JsError ''Failed to fetch'')) facts_ok reversed (Inr (Some report_text)))
     (query cars) (Some (apiKey cars)) =
     Inl (JsError ''Could not plan the research topic. Check your API Key.'') \<and>
   error (final_state cars
     (handleResearch (scripted None plan_ok facts_one_bad reversed (Inr (Some report_text))) cars)) =
     Some ''Could not extract facts from sources.'' \<and>
   error (final_state cars
     (handleResearch (scripted None plan_ok facts_ok reversed (Inr (Some truncated_text))) cars)) =
     Some ''Could not write the final report.''"
proof -
  let ?down = "scripted None (Inl (JsError ''Failed to fetch'')) facts_ok reversed (Inr (Some report_text))"
  let ?bad = "scripted None plan_ok facts_one_bad reversed (Inr (Some report_text))"
  let ?cut = "scripted None plan_ok facts_ok reversed (Inr (Some truncated_text))"
  have "planTopic ?down (query cars) (Some (apiKey cars)) =
      Inl (JsError ''Could not plan the research topic. Check your API Key.'')"
    by (rule planTopic_rejected)
  moreover have "error (final_state cars (handleResearch ?bad cars)) =
      Some ''Could not extract facts from sources.''"
    using error_message_names_the_stage [of ?bad _ _ _ _ _ cars] query_cars
    by (simp add: planTopic_plan_ok mapContent_facts_one_bad)
  moreover have "error (final_state cars (handleResearch ?cut cars)) =
      Some ''Could not write the final report.''"
    using error_message_names_the_stage [of ?cut _ _ _ _ _ cars] query_cars
    by (simp add: planTopic_plan_ok mapContent_facts_ok
        writeReport_unparsable [OF parse_truncated_text])
  ultimately show ?thesis by blast
qed

text \<open>
  C4. A reset from \<open>Error\<close> or \<open>Complete\<close> should return to \<open>Idle\<close> and clear
  the refined topic, the report and the error message. The handler of
  \<^verbatim>\<open>Conduct New Research\<close> clears the topic and the report; the handler of
  \<^verbatim>\<open>Reset System\<close> sets the step only. After a run that failed in the mapper, the
  reset leaves the topic and the error message in place.
\<close>

theorem reset_system_keeps_error_and_topic:
  "final_state cars
     (handleResearch (scripted None plan_ok facts_one_bad reversed (Inr (Some report_text))) cars) =
     cars\<lparr>step := Error, error := Some ''Could not extract facts from sources.'',
          report := JNull, refinedTopic := ''EV transition in 2025''\<rparr> \<and>
   reset_system (final_state cars
     (handleResearch (scripted None plan_ok facts_one_bad reversed (Inr (Some report_text))) cars)) =
     cars\<lparr>step := Idle, error := Some ''Could not extract facts from sources.'',
          report := JNull, refinedTopic := ''EV transition in 2025''\<rparr> \<and>
   error (reset_system (final_state cars
     (handleResearch (scripted None plan_ok facts_one_bad reversed (Inr (Some report_text))) cars))) =
     Some ''Could not extract facts from sources.'' \<and>
   refinedTopic (reset_system (final_state cars
     (handleResearch (scripted None plan_ok facts_one_bad reversed (Inr (Some report_text))) cars))) =
     ''EV transition in 2025''"
  by (simp add: run_one_bad final_state_def reset_system_def)

text \<open>
  C5, as the specification states it: for every sequence of documents whose calls
  return texts, \<open>mapContent\<close> returns their notes blob, and for no documents the empty
  blob rather than a failure. It fails for the empty sequence when no key is available:
  \<open>getClient\<close> throws before the documents are looked at.
\<close>

theorem mapContent_empty_without_key_counterexample:
  "mapContent (scripted None plan_ok facts_ok reversed (Inr (Some report_text))) [] (Some []) =
     Inl (JsError ''Could not extract facts from sources.'') \<and>
   mapContent (scripted None plan_ok facts_ok reversed (Inr (Some report_text))) [] None =
     Inl (JsError ''Could not extract facts from sources.'')"
  by (simp add: mapContent_def mapContent_try_def getClient_def scripted_sel)

text \<open>
  C5, amended: when a key is available and the call for each document returns a text
  (\<^verbatim>\<open>undefined\<close> or empty counting as the empty string), \<open>mapContent\<close> returns the
  notes blob of the texts in the order of the documents, whatever the settling times of
  the calls; for no documents it returns the empty string.
\<close>

theorem mapContent_joins_in_document_order:
  assumes "getClient sv k = Inr ai"
    and "\<forall>i<length docs. map_response sv i ai (map_prompt (docs ! i)) = Inr (T i)"
  shows "mapContent (sv\<lparr>map_settled := d\<rparr>) docs k =
           Inr (NotesBlob_spec (map (\<lambda>i. or_else (T i) []) [0..<length docs])) \<and>
         (docs = [] \<longrightarrow> mapContent (sv\<lparr>map_settled := d\<rparr>) docs k = Inr [])"
proof -
  have "mapContent (sv\<lparr>map_settled := d\<rparr>) docs k =
      Inr (NotesBlob_spec (map (\<lambda>i. or_else (T i) []) [0..<length docs]))"
    by (rule mapContent_fulfilled [OF assms])
  then show ?thesis
    by (auto simp: NotesBlob_spec_def)
qed

theorem mapContent_joins_in_document_order_witness:
  "mapContent ((scripted None plan_ok facts_ok (\<lambda>i. i) (Inr (Some report_text)))\<lparr>map_settled := reversed\<rparr>)
     (fetchMockSearch ''EV transition in 2025'') (Some (apiKey cars)) =
     Inr (''GPU costs fell 40%'' @ nl @ nl @ ''$5B invested'') \<and>
   mapContent ((scripted None plan_ok facts_ok (\<lambda>i. i) (Inr (Some report_text)))\<lparr>map_settled := (\<lambda>i. i)\<rparr>)
     (fetchMockSearch ''EV transition in 2025'') (Some (apiKey cars)) =
     Inr (''GPU costs fell 40%'' @ nl @ nl @ ''$5B invested'') \<and>
   mapContent ((scripted None plan_ok facts_ok (\<lambda>i. i) (Inr (Some report_text)))\<lparr>map_settled := reversed\<rparr>)
     [] (Some (apiKey cars)) = Inr []"
proof -
  let ?sv = "scripted None plan_ok facts_ok (\<lambda>i. i) (Inr (Some report_text))"
  let ?T = "\<lambda>i. if i = 0 then Some ''GPU costs fell 40%''
                 else if i = 1 then None else Some ''$5B invested''"
  have texts: "\<forall>i<length (fetchMockSearch ''EV transition in 2025'').
      map_response ?sv i ''secret'' (map_prompt (fetchMockSearch ''EV transition in 2025'' ! i)) = Inr (?T i)"
    by (simp add: scripted_sel facts_ok_def)
  have none: "\<forall>i<length ([] :: SearchResult list).
      map_response ?sv i ''secret'' (map_prompt ([] ! i)) = Inr (?T i)"
    by simp
  show ?thesis
    using mapContent_joins_in_document_order [OF getClient_cars texts, of reversed]
      mapContent_joins_in_document_order [OF getClient_cars texts, of "\<lambda>i. i"]
      mapContent_joins_in_document_order [OF getClient_cars none, of reversed]
    by (simp add: fetchMockSearch_def NotesBlob_spec_def upt_rec)
qed

text \<open>
  C6. If the call for any one document fails, \<open>mapContent\<close> fails with its single
  message, whatever the other calls return and in whatever order the calls settle; the
  run then ends in \<open>Error\<close> with that message and the writer is never called, so no
  notes are passed on.
\<close>

theorem one_failed_extraction_fails_the_stage:
  assumes "getClient sv k = Inr ai"
    and "i < length docs"
    and "map_response sv i ai (map_prompt (docs ! i)) = Inl e"
  shows "mapContent sv docs k = Inl (JsError ''Could not extract facts from sources.'') \<and>
         (trim (query s) \<noteq> [] \<and> k = Some (apiKey s) \<and>
          planTopic sv (query s) k = Inr topic \<and> docs = fetchMockSearch topic \<longrightarrow>
            final_state s (handleResearch sv s) =
              s\<lparr>step := Error, error := Some ''Could not extract facts from sources.'',
                report := JNull, refinedTopic := topic\<rparr> \<and>
            Call_writeReport \<notin> set (calls (handleResearch sv s)))"
proof -
  have failed: "mapContent sv docs k = Inl (JsError ''Could not extract facts from sources.'')"
    by (rule mapContent_rejected [OF assms])
  show ?thesis
  proof (intro conjI impI)
    show "mapContent sv docs k = Inl (JsError ''Could not extract facts from sources.'')"
      by (rule failed)
  next
    assume run: "trim (query s) \<noteq> [] \<and> k = Some (apiKey s) \<and>
      planTopic sv (query s) k = Inr topic \<and> docs = fetchMockSearch topic"
    then have nonblank: "trim (query s) \<noteq> []"
      and plan: "planTopic sv (query s) (Some (apiKey s)) = Inr topic"
      and mapped: "mapContent sv (fetchMockSearch topic) (Some (apiKey s)) =
        Inl (JsError ''Could not extract facts from sources.'')"
      using failed by auto
    have "handleResearch sv s =
       [Update (s\<lparr>step := Planning, error := None, report := JNull, refinedTopic := []\<rparr>),
        Invoke Call_planTopic,
        Update (s\<lparr>step := Searching, error := None, report := JNull, refinedTopic := topic\<rparr>),
        Invoke Call_fetchMockSearch,
        Update (s\<lparr>step := Mapping, error := None, report := JNull, refinedTopic := topic\<rparr>),
        Invoke Call_mapContent,
        Update (s\<lparr>step := Error, error := Some ''Could not extract facts from sources.'',
                  report := JNull, refinedTopic := topic\<rparr>)]"
      by (rule run_map_failed [OF nonblank plan mapped])
    then show "final_state s (handleResearch sv s) =
        s\<lparr>step := Error, error := Some ''Could not extract facts from sources.'',
          report := JNull, refinedTopic := topic\<rparr>"
      and "Call_writeReport \<notin> set (calls (handleResearch sv s))"
      by (simp_all add: final_state_def)
  qed
qed

theorem one_failed_extraction_fails_the_stage_witness:
  "map_response (scripted None plan_ok facts_one_bad reversed (Inr (Some report_text))) 1 ''secret''
     (map_prompt (fetchMockSearch ''EV transition in 2025'' ! 1)) = Inl (JsError ''Failed to fetch'') \<and>
   map_response (scripted None plan_ok facts_one_bad reversed (Inr (Some report_text))) 0 ''secret''
     (map_prompt (fetchMockSearch ''EV transition in 2025'' ! 0)) = Inr (Some ''GPU costs fell 40%'') \<and>
   mapContent (scripted None plan_ok facts_one_bad reversed (Inr (Some report_text)))
     (fetchMockSearch ''EV transition in 2025'') (Some (apiKey cars)) =
     Inl (JsError ''Could not extract facts from sources.'') \<and>
   final_state cars (handleResearch (scripted None plan_ok facts_one_bad reversed (Inr (Some report_text))) cars) =
     cars\<lparr>step := Error, error := Some ''Could not extract facts from sources.'',
          report := JNull, refinedTopic := ''EV transition in 2025''\<rparr> \<and>
   Call_writeReport \<notin> set (calls
     (handleResearch (scripted None plan_ok facts_one_bad reversed (Inr (Some report_text))) cars))"
proof -
  let ?sv = "scripted None plan_ok facts_one_bad reversed (Inr (Some report_text))"
  have bad: "map_response ?sv 1 ''secret'' (map_prompt (fetchMockSearch ''EV transition in 2025'' ! 1)) =
      Inl (JsError ''Failed to fetch'')"
    by (simp add: scripted_sel facts_one_bad_def)
  have good: "map_response ?sv 0 ''secret'' (map_prompt (fetchMockSearch ''EV transition in 2025'' ! 0)) =
      Inr (Some ''GPU costs fell 40%'')"
    by (simp add: scripted_sel facts_one_bad_def facts_ok_def)
  have len: "1 < length (fetchMockSearch ''EV transition in 2025'')"
    by (simp add: fetchMockSearch_def)
  show ?thesis
    using one_failed_extraction_fails_the_stage [OF getClient_cars len bad,
        of cars "''EV transition in 2025''"] bad good query_cars planTopic_plan_ok
    by simp
qed

text \<open>
  C7. When the planner's call succeeds with a text that is empty or white space only,
  \<open>planTopic\<close> returns the query unchanged; any other text is returned trimmed.
  The run then publishes that topic and goes on to the search.
\<close>

theorem planner_falls_back_to_query:
  assumes "getClient sv k = Inr ai"
    and "plan_response sv ai (plan_prompt q) = Inr (Some t)"
  shows "planTopic sv q k = Inr (if (\<forall>c\<in>set t. is_white_space c) then q else trim t) \<and>
         (trim q \<noteq> [] \<and> q = query s \<and> k = Some (apiKey s) \<longrightarrow>
          (\<exists>rest. handleResearch sv s =
             Update (s\<lparr>step := Planning, error := None, report := JNull, refinedTopic := []\<rparr>) #
             Invoke Call_planTopic #
             Update (s\<lparr>step := Searching, error := None, report := JNull,
                       refinedTopic := (if (\<forall>c\<in>set t. is_white_space c) then q else trim t)\<rparr>) #
             Invoke Call_fetchMockSearch # rest))"
proof -
  have plan: "planTopic sv q k = Inr (if (\<forall>c\<in>set t. is_white_space c) then q else trim t)"
    using planTopic_fulfilled [OF assms] by (simp add: trim_empty_iff)
  then show ?thesis
    by (auto simp: handleResearch_def Let_def)
qed

theorem planner_falls_back_to_query_witness:
  "planTopic (scripted None (Inr (Some [CHR 0x20, CHR 0x0A])) facts_ok reversed (Inr (Some report_text)))
     (query cars) (Some (apiKey cars)) = Inr ''Cars'' \<and>
   (\<exists>rest. handleResearch
      (scripted None (Inr (Some [CHR 0x20, CHR 0x0A])) facts_ok reversed (Inr (Some report_text))) cars =
      Update (cars\<lparr>step := Planning, error := None, report := JNull, refinedTopic := []\<rparr>) #
      Invoke Call_planTopic #
      Update (cars\<lparr>step := Searching, error := None, report := JNull, refinedTopic := ''Cars''\<rparr>) #
      Invoke Call_fetchMockSearch # rest)"
  using planner_falls_back_to_query [of
      "scripted None (Inr (Some [CHR 0x20, CHR 0x0A])) facts_ok reversed (Inr (Some report_text))"
      "Some (apiKey cars)" "''secret''" "query cars" "[CHR 0x20, CHR 0x0A]" cars]
    query_cars
  by (simp add: getClient_cars scripted_sel is_white_space_def) (simp add: cars_def initial_def)



text \<open>
  C9. For every query that is empty or consists only of white space, a call of
  \<open>handleResearch\<close> (directly or through a control) does nothing: it changes no
  state and invokes no stage.
\<close>

theorem blank_query_is_noop:
  assumes "\<forall>c\<in>set (query s). is_white_space c"
  shows "handleResearch sv s = [] \<and> dispatch sv s c = [] \<and>
         final_state s (handleResearch sv s) = s \<and> calls (handleResearch sv s) = []"
proof -
  have "trim (query s) = []"
    using assms by (simp add: trim_empty_iff)
  then have "handleResearch sv s = []"
    by (rule run_blank)
  then show ?thesis
    by (cases c) (simp_all add: final_state_def)
qed

theorem blank_query_is_noop_witness:
  "handleResearch (scripted None plan_ok facts_ok reversed (Inr (Some report_text)))
     (cars\<lparr>query := [CHR 0x20, CHR 0x09, CHR 0x20]\<rparr>) = [] \<and>
   dispatch (scripted None plan_ok facts_ok reversed (Inr (Some report_text)))
     (cars\<lparr>query := [CHR 0x20, CHR 0x09, CHR 0x20]\<rparr>) Initiate_click = []"
  using blank_query_is_noop [of "cars\<lparr>query := [CHR 0x20, CHR 0x09, CHR 0x20]\<rparr>"
      "scripted None plan_ok facts_ok reversed (Inr (Some report_text))" Initiate_click]
  by (simp add: is_white_space_def)

text \<open>
  C10. \<open>fetchMockSearch\<close> has no failing path and returns, for every topic, the same
  three documents with the topic inserted into each content; so in every run the state
  that follows \<open>Searching\<close> is \<open>Mapping\<close>, never \<open>Error\<close>, and the mapper never
  receives an empty list from it.
\<close>

theorem fetchMockSearch_always_three:
  "fetchMockSearch t =
     [\<lparr>source = ''Academic Paper'',
       content = ''Recent studies show '' @ t @
                 '' is accelerating due to GPU costs dropping by 40%.''\<rparr>,
      \<lparr>source = ''Tech Blog'',
       content = ''Developers are complaining that '' @ t @
                 '' is hard to debug, leading to a 20% slowdown in production.''\<rparr>,
      \<lparr>source = ''Market Report'',
       content = ''Investors have poured $5B into '' @ t @ '' related startups in Q4 2024.''\<rparr>] \<and>
   length (fetchMockSearch t) = 3 \<and>
   (\<forall>p\<in>set (zip (states (handleResearch sv s)) (tl (states (handleResearch sv s)))).
      step (fst p) = Searching \<longrightarrow> step (snd p) = Mapping)"
proof -
  have "\<forall>p\<in>set (zip (states (handleResearch sv s)) (tl (states (handleResearch sv s)))).
      step (fst p) = Searching \<longrightarrow> step (snd p) = Mapping"
  proof (cases rule: run_cases [of s sv])
    case blank
    then show ?thesis by simp
  next
    case (plan_failed e)
    then show ?thesis by (simp add: run_plan_failed)
  next
    case (map_failed topic e)
    then show ?thesis by (simp add: run_map_failed)
  next
    case (write_failed topic blob e)
    then show ?thesis by (simp add: run_write_failed)
  next
    case (complete topic blob r)
    then show ?thesis by (simp add: run_complete)
  qed
  then show ?thesis
    by (simp add: fetchMockSearch_def)
qed

theorem fetchMockSearch_always_three_witness:
  "length (fetchMockSearch ''EV transition in 2025'') = 3 \<and>
   step (states (handleResearch (scripted None plan_ok facts_ok reversed (Inr (Some report_text))) cars) ! 1)
     = Searching \<and>
   step (states (handleResearch (scripted None plan_ok facts_ok reversed (Inr (Some report_text))) cars) ! 2)
     = Mapping"
  using fetchMockSearch_always_three [of "''EV transition in 2025''"
      "scripted None plan_ok facts_ok reversed (Inr (Some report_text))" cars]
  by (simp add: run_all_ok)

end
